theory Spec2Isabelle
  imports Complex_Main "HOL-Library.List_Lexorder" "HOL-Library.AList"
begin

section \<open>Values shared by the scripts\<close>

text \<open>
  Exceptions are values. Every external call that the scripts guard with
  \<^verbatim>\<open>try\<close>, or that a statement below is about, has its failure as a branch.
\<close>

datatype error =
    ModelError        \<comment> \<open>\<^verbatim>\<open>model.encode\<close> raised\<close>
  | UpsertError       \<comment> \<open>\<^verbatim>\<open>client.upsert\<close> raised\<close>
  | QueryError        \<comment> \<open>\<^verbatim>\<open>client.query_points\<close> raised\<close>
  | ServiceError      \<comment> \<open>a call that lists, deletes, creates or indexes a collection raised\<close>
  | NotFound          \<comment> \<open>the collection does not exist\<close>
  | AlreadyExists     \<comment> \<open>\<^verbatim>\<open>create_collection\<close> on an existing name\<close>
  | ValueError
  | TypeError
  | IOError
  | Neo4jError        \<comment> \<open>\<^verbatim>\<open>session.run\<close> raised (connection, transaction)\<close>
  | ConstraintError   \<comment> \<open>a uniqueness constraint rejected a write\<close>

text \<open>
  A Python \<^verbatim>\<open>str\<close> is the list of its code points, so that lengths, slices, white
  space and comparisons are those of Python. \<open>py\<close> gives the value of a literal of the
  source. The keys of dictionaries, the names of collections and of properties are
  literals of the scripts and stay Isabelle strings.
\<close>

type_synonym pystr = "nat list"

definition py :: "string \<Rightarrow> pystr" where
  "py s = map of_char s"

declare py_def [simp]

text \<open>
  A payload or property value: the scripts store strings, integers and lists of
  strings. A dictionary is an association list in insertion order, as Python keeps it.
\<close>

datatype jval = JStr pystr | JInt int | JList "pystr list"

type_synonym payload = "(string \<times> jval) list"

type_synonym vector = "rat list"

definition dict_get :: "payload \<Rightarrow> string \<Rightarrow> jval \<Rightarrow> jval" where
  \<comment> \<open>\<^verbatim>\<open>d.get(k, default)\<close>\<close>
  "dict_get d k dflt = (case map_of d k of None \<Rightarrow> dflt | Some v \<Rightarrow> v)"

fun falsy :: "jval \<Rightarrow> bool" where
  \<comment> \<open>\<^verbatim>\<open>not v\<close>\<close>
  "falsy (JStr s) = (s = [])"
| "falsy (JInt i) = (i = 0)"
| "falsy (JList l) = (l = [])"

fun py_lt :: "jval \<Rightarrow> jval \<Rightarrow> error + bool" where
  \<comment> \<open>\<^verbatim>\<open>a < b\<close>: lexicographic on strings and lists, \<^verbatim>\<open>TypeError\<close> across types\<close>
  "py_lt (JStr a) (JStr b) = Inr (a < b)"
| "py_lt (JInt a) (JInt b) = Inr (a < b)"
| "py_lt (JList a) (JList b) = Inr (a < b)"
| "py_lt _ _ = Inl TypeError"

definition py_round :: "rat \<Rightarrow> nat \<Rightarrow> rat" where
  \<comment> \<open>\<^verbatim>\<open>round(x, n)\<close> on exact values: to the nearest multiple of \<open>10^-n\<close>, ties to even\<close>
  "py_round x n =
     (let s = x * 10 ^ n; f = \<lfloor>s\<rfloor>; d = s - of_int f
      in of_int (if d < 1 / 2 then f else if 1 / 2 < d then f + 1
                 else if even f then f else f + 1) / 10 ^ n)"

function chunks :: "nat \<Rightarrow> 'a list \<Rightarrow> 'a list list" where
  \<comment> \<open>\<^verbatim>\<open>[xs[i:i + n] for i in range(0, len(xs), n)]\<close>, for a step \<open>n > 0\<close>\<close>
  "chunks n xs = (if n = 0 \<or> xs = [] then [] else take n xs # chunks n (drop n xs))"
  by pat_completeness auto
termination
  by (relation "measure (\<lambda>(n, xs). length xs)") auto

declare chunks.simps [simp del]

section \<open>The vector index (Qdrant)\<close>

record point =
  p_id :: pystr
  p_vector :: vector
  p_payload :: payload

record hit =
  h_id :: pystr
  h_score :: rat
  h_payload :: payload

datatype schema = INTEGER | KEYWORD

record collection =
  vec_size :: nat
  indexes :: "(string \<times> schema) list"
  points :: "point list"

text \<open>
  The client and the service behind it. \<open>collections\<close> is what the service stores.
  \<open>faults\<close> scripts the coming \<^verbatim>\<open>upsert\<close> calls (\<open>True\<close>: the call raises, be it
  the connection or a point the service refuses; an empty script: every call succeeds).
  \<open>admin_faults\<close> scripts in the same way the coming calls that list, delete, create or
  index a collection. \<open>search\<close> is the ranking of the service for a query vector, or its
  failure. \<open>upserted\<close> and \<open>queried\<close> log the batches written and the queries issued.
\<close>

record qdrant =
  collections :: "(string \<times> collection) list"
  faults :: "bool list"
  admin_faults :: "bool list"
  search :: "string \<Rightarrow> vector \<Rightarrow> error + hit list"
  upserted :: "point list list"
  queried :: "(string \<times> vector \<times> nat) list"

definition upsert1 :: "point list \<Rightarrow> point \<Rightarrow> point list" where
  \<comment> \<open>insert, or overwrite the point of the same id\<close>
  "upsert1 ps p =
     (if \<exists>q \<in> set ps. p_id q = p_id p
      then map (\<lambda>q. if p_id q = p_id p then p else q) ps
      else ps @ [p])"

definition store :: "qdrant \<Rightarrow> string \<Rightarrow> point list \<Rightarrow> (error + unit) \<times> qdrant" where
  "store c name pts =
     (case map_of (collections c) name of
        None \<Rightarrow> (Inl NotFound, c)
      | Some col \<Rightarrow>
          (Inr (), c\<lparr>collections :=
                      AList.update name (col\<lparr>points := foldl upsert1 (points col) pts\<rparr>) (collections c),
                    upserted := upserted c @ [pts]\<rparr>))"

definition upsert :: "qdrant \<Rightarrow> string \<Rightarrow> point list \<Rightarrow> (error + unit) \<times> qdrant" where
  \<comment> \<open>\<^verbatim>\<open>client.upsert(collection_name=name, points=pts)\<close>\<close>
  "upsert c name pts =
     (case faults c of
        [] \<Rightarrow> store c name pts
      | False # fs \<Rightarrow> store (c\<lparr>faults := fs\<rparr>) name pts
      | True # fs \<Rightarrow> (Inl UpsertError, c\<lparr>faults := fs\<rparr>))"

definition query_points :: "qdrant \<Rightarrow> string \<Rightarrow> vector \<Rightarrow> nat \<Rightarrow> (error + hit list) \<times> qdrant" where
  \<comment> \<open>\<^verbatim>\<open>client.query_points(collection_name, query, limit, with_payload=True).points\<close>\<close>
  "query_points c name v limit =
     (case search c name v of
        Inl e \<Rightarrow> Inl e
      | Inr hs \<Rightarrow> Inr (take limit hs),
      c\<lparr>queried := queried c @ [(name, v, limit)]\<rparr>)"

definition scroll :: "qdrant \<Rightarrow> string \<Rightarrow> nat \<Rightarrow> nat option \<Rightarrow> error + point list \<times> nat option" where
  \<comment> \<open>\<^verbatim>\<open>client.scroll(collection_name, limit, offset, ...)\<close>: a page and the next cursor\<close>
  "scroll c name limit offset =
     (case map_of (collections c) name of
        None \<Rightarrow> Inl NotFound
      | Some col \<Rightarrow>
          (let start = (case offset of None \<Rightarrow> 0 | Some k \<Rightarrow> k);
               rest = drop start (points col)
           in Inr (take limit rest,
                   if limit < length rest then Some (start + limit) else None)))"

definition admin :: "qdrant \<Rightarrow> bool \<times> qdrant" where
  \<comment> \<open>whether the coming collection call raises, and the client after it\<close>
  "admin c = (case admin_faults c of [] \<Rightarrow> (False, c) | b # fs \<Rightarrow> (b, c\<lparr>admin_faults := fs\<rparr>))"

definition get_collections :: "qdrant \<Rightarrow> (error + string list) \<times> qdrant" where
  \<comment> \<open>\<^verbatim>\<open>[c.name for c in client.get_collections().collections]\<close>\<close>
  "get_collections c =
     (case admin c of
        (True, c1) \<Rightarrow> (Inl ServiceError, c1)
      | (False, c1) \<Rightarrow> (Inr (map fst (collections c1)), c1))"

definition delete_collection :: "qdrant \<Rightarrow> string \<Rightarrow> (error + unit) \<times> qdrant" where
  "delete_collection c name =
     (case admin c of
        (True, c1) \<Rightarrow> (Inl ServiceError, c1)
      | (False, c1) \<Rightarrow>
          (Inr (), c1\<lparr>collections := filter (\<lambda>kv. fst kv \<noteq> name) (collections c1)\<rparr>))"

definition create_collection :: "qdrant \<Rightarrow> string \<Rightarrow> nat \<Rightarrow> (error + unit) \<times> qdrant" where
  "create_collection c name vsize =
     (case admin c of
        (True, c1) \<Rightarrow> (Inl ServiceError, c1)
      | (False, c1) \<Rightarrow>
          (if name \<in> set (map fst (collections c1)) then (Inl AlreadyExists, c1)
           else (Inr (), c1\<lparr>collections :=
                               collections c1 @
                                 [(name, \<lparr>vec_size = vsize, indexes = [], points = []\<rparr>)]\<rparr>)))"

definition create_payload_index ::
  "qdrant \<Rightarrow> string \<Rightarrow> string \<Rightarrow> schema \<Rightarrow> (error + unit) \<times> qdrant" where
  "create_payload_index c name field sch =
     (case admin c of
        (True, c1) \<Rightarrow> (Inl ServiceError, c1)
      | (False, c1) \<Rightarrow>
          (case map_of (collections c1) name of
             None \<Rightarrow> (Inl NotFound, c1)
           | Some col \<Rightarrow>
               (Inr (), c1\<lparr>collections :=
                              AList.update name (col\<lparr>indexes := indexes col @ [(field, sch)]\<rparr>)
                                (collections c1)\<rparr>)))"

section \<open>The embedding model (BGE-M3)\<close>

record encode_request =
  texts :: "pystr list"
  batch_size :: nat
  max_length :: nat
  return_dense :: bool
  return_sparse :: bool
  return_colbert_vecs :: bool

text \<open>
  \<open>respond\<close> is what \<^verbatim>\<open>model.encode(...)['dense_vecs'].tolist()\<close> gives for a request,
  or its failure; \<open>calls\<close> logs the requests made.
\<close>

record bge_model =
  respond :: "encode_request \<Rightarrow> error + vector list"
  calls :: "encode_request list"

definition encode :: "bge_model \<Rightarrow> encode_request \<Rightarrow> (error + vector list) \<times> bge_model" where
  "encode m req = (respond m req, m\<lparr>calls := calls m @ [req]\<rparr>)"

section \<open>vector_store.py: embedding the Notion pages\<close>

definition BATCH_SIZE :: nat where "BATCH_SIZE = 4"
definition MAX_TEXT_LENGTH :: nat where "MAX_TEXT_LENGTH = 2048"
definition UPSERT_BATCH_SIZE :: nat where "UPSERT_BATCH_SIZE = 10"
definition VECTOR_DIM :: nat where "VECTOR_DIM = 1024"
  \<comment> \<open>in vector_store.py unless the environment sets it: there it is the parameter \<open>vsize\<close>\<close>

text \<open>
  A page of \<^verbatim>\<open>pages.json\<close>. A key the scripts read with \<^verbatim>\<open>page.get(k, default)\<close>
  under one default holds that default when absent; \<open>pg_title\<close> is read under two
  defaults and is optional. \<^verbatim>\<open>page["id"]\<close> is always present.
\<close>

record page =
  pg_id :: pystr
  pg_title :: "pystr option"
  pg_content :: pystr
  pg_created_time :: pystr
  pg_last_edited_time :: pystr
  pg_url :: pystr
  pg_word_count :: int
  pg_block_count :: int
  pg_parent_page_id :: pystr
  pg_parent_database_id :: pystr
  pg_parent_type :: pystr
  pg_tags :: "pystr list"
  pg_links :: "pystr list"

definition is_space :: "nat \<Rightarrow> bool" where
  \<comment> \<open>the code points \<^verbatim>\<open>str.strip()\<close> removes: U+0009-000D, U+001C-0020, U+0085,
      U+00A0, U+1680, U+2000-200A, U+2028, U+2029, U+202F, U+205F, U+3000\<close>
  "is_space ch =
     ((0x09 \<le> ch \<and> ch \<le> 0x0D) \<or> (0x1C \<le> ch \<and> ch \<le> 0x20) \<or> ch = 0x85 \<or> ch = 0xA0 \<or>
      ch = 0x1680 \<or> (0x2000 \<le> ch \<and> ch \<le> 0x200A) \<or> ch = 0x2028 \<or> ch = 0x2029 \<or>
      ch = 0x202F \<or> ch = 0x205F \<or> ch = 0x3000)"

definition strip_nonempty :: "pystr \<Rightarrow> bool" where
  \<comment> \<open>\<^verbatim>\<open>bool(s.strip())\<close>\<close>
  "strip_nonempty s = list_ex (\<lambda>ch. \<not> is_space ch) s"

definition prepare_text_for_embedding :: "page \<Rightarrow> pystr" where
  "prepare_text_for_embedding pg =
     (let title = (case pg_title pg of None \<Rightarrow> [] | Some t \<Rightarrow> t);
          content = pg_content pg;
          t = (if content \<noteq> [] then title @ [0x0A, 0x0A] @ content else title);
          max_chars = MAX_TEXT_LENGTH * 2
      in if max_chars < length t then take max_chars t else t)"

definition embed_batch :: "bge_model \<Rightarrow> pystr list \<Rightarrow> (error + vector list) \<times> bge_model" where
  "embed_batch m ts =
     encode m \<lparr>texts = ts, batch_size = length ts, max_length = MAX_TEXT_LENGTH,
               return_dense = True, return_sparse = False, return_colbert_vecs = False\<rparr>"

text \<open>
  \<^verbatim>\<open>uuid.UUID\<close> of the standard library is a parameter \<open>U\<close>: the canonical text of
  a 128-bit identifier, or \<^verbatim>\<open>ValueError\<close>.
\<close>

definition notion_id_to_uuid :: "(pystr \<Rightarrow> error + pystr) \<Rightarrow> pystr \<Rightarrow> error + pystr" where
  \<comment> \<open>\<^verbatim>\<open>str(uuid.UUID(notion_id.replace("-", "")))\<close>; the hyphen is U+002D\<close>
  "notion_id_to_uuid U notion_id = U (filter (\<lambda>ch. ch \<noteq> 0x2D) notion_id)"

definition page_payload :: "page \<Rightarrow> payload" where
  "page_payload pg =
     [(''notion_id'', JStr (pg_id pg)),
      (''title'', JStr (case pg_title pg of None \<Rightarrow> [] | Some t \<Rightarrow> t)),
      (''created_time'', JStr (pg_created_time pg)),
      (''last_edited_time'', JStr (pg_last_edited_time pg)),
      (''url'', JStr (pg_url pg)),
      (''word_count'', JInt (pg_word_count pg)),
      (''block_count'', JInt (pg_block_count pg)),
      (''parent_id'', JStr (pg_parent_page_id pg)),
      (''content_preview'', JStr (take 500 (pg_content pg))),
      (''tags'', JList (pg_tags pg))]"

definition page_point :: "(pystr \<Rightarrow> error + pystr) \<Rightarrow> page \<Rightarrow> vector \<Rightarrow> error + point" where
  \<comment> \<open>\<^verbatim>\<open>PointStruct(id=notion_id_to_uuid(page["id"]), vector=vector, payload={...})\<close>\<close>
  "page_point U pg v =
     (case notion_id_to_uuid U (pg_id pg) of
        Inl e \<Rightarrow> Inl e
      | Inr i \<Rightarrow> Inr \<lparr>p_id = i, p_vector = v, p_payload = page_payload pg\<rparr>)"

record embed_stats =
  total :: nat
  processed :: nat
  skipped_empty :: nat
  errors :: nat

text \<open>
  The state of \<^verbatim>\<open>process_pages\<close> between two statements: the statistics, the buffer
  \<^verbatim>\<open>points\<close>, the model, the client, and the seconds slept.
\<close>

record pipeline =
  stats :: embed_stats
  buffer :: "point list"
  model :: bge_model
  client :: qdrant
  slept :: nat

fun add_points :: "(pystr \<Rightarrow> error + pystr) \<Rightarrow> (page \<times> vector) list \<Rightarrow> pipeline \<Rightarrow> error option \<times> pipeline" where
  \<comment> \<open>\<^verbatim>\<open>for page, vector in zip(batch_pages, vectors)\<close>; an exception leaves what was appended\<close>
  "add_points U [] s = (None, s)"
| "add_points U ((pg, v) # rest) s =
     (case page_point U pg v of
        Inl e \<Rightarrow> (Some e, s)
      | Inr pt \<Rightarrow>
          add_points U rest
            (s\<lparr>buffer := buffer s @ [pt],
               stats := (stats s)\<lparr>processed := processed (stats s) + 1\<rparr>\<rparr>))"

definition flush_retry :: "string \<Rightarrow> pipeline \<Rightarrow> pipeline" where
  \<comment> \<open>lines 187-200 of vector_store.py: upsert, one retry after two seconds, then drop\<close>
  "flush_retry cname s =
     (if UPSERT_BATCH_SIZE \<le> length (buffer s) then
        (case upsert (client s) cname (buffer s) of
           (Inr _, c1) \<Rightarrow> s\<lparr>client := c1, buffer := []\<rparr>
         | (Inl _, c1) \<Rightarrow>
             (case upsert c1 cname (buffer s) of
                (Inr _, c2) \<Rightarrow> s\<lparr>client := c2, slept := slept s + 2, buffer := []\<rparr>
              | (Inl _, c2) \<Rightarrow>
                  s\<lparr>client := c2, slept := slept s + 2,
                    stats := (stats s)\<lparr>errors := errors (stats s) + length (buffer s)\<rparr>,
                    buffer := []\<rparr>))
      else s)"

definition embed_step :: "(pystr \<Rightarrow> error + pystr) \<Rightarrow> string \<Rightarrow> pipeline \<Rightarrow> (page \<times> pystr) list \<Rightarrow> pipeline" where
  \<comment> \<open>one iteration of the loop over \<^verbatim>\<open>range(0, len(valid_pages), BATCH_SIZE)\<close>\<close>
  "embed_step U cname s batch =
     (let batch_pages = map fst batch; batch_texts = map snd batch
      in case embed_batch (model s) batch_texts of
           (Inl _, m1) \<Rightarrow>
             s\<lparr>model := m1, stats := (stats s)\<lparr>errors := errors (stats s) + BATCH_SIZE\<rparr>\<rparr>
         | (Inr vectors, m1) \<Rightarrow>
             (case add_points U (zip batch_pages vectors) (s\<lparr>model := m1\<rparr>) of
                (Some _, s1) \<Rightarrow> s1\<lparr>stats := (stats s1)\<lparr>errors := errors (stats s1) + BATCH_SIZE\<rparr>\<rparr>
              | (None, s1) \<Rightarrow> flush_retry cname s1))"

definition valid_pages :: "page list \<Rightarrow> (page \<times> pystr) list" where
  "valid_pages pages =
     filter (\<lambda>pt. strip_nonempty (snd pt)) (map (\<lambda>pg. (pg, prepare_text_for_embedding pg)) pages)"

definition final_flush :: "string \<Rightarrow> pipeline \<Rightarrow> (error + embed_stats) \<times> pipeline" where
  \<comment> \<open>\<^verbatim>\<open>if points: client.upsert(...)\<close> outside any \<^verbatim>\<open>try\<close>, then \<^verbatim>\<open>return stats\<close>\<close>
  "final_flush cname s =
     (if buffer s \<noteq> [] then
        (case upsert (client s) cname (buffer s) of
           (Inl e, c1) \<Rightarrow> (Inl e, s\<lparr>client := c1\<rparr>)
         | (Inr _, c1) \<Rightarrow> (Inr (stats s), s\<lparr>client := c1\<rparr>))
      else (Inr (stats s), s))"

definition process_pages ::
  "(pystr \<Rightarrow> error + pystr) \<Rightarrow> string \<Rightarrow> page list \<Rightarrow> bge_model \<Rightarrow> qdrant \<Rightarrow> (error + embed_stats) \<times> pipeline" where
  "process_pages U cname pages m c =
     (let valid = valid_pages pages;
          s0 = \<lparr>stats = \<lparr>total = length pages, processed = 0,
                        skipped_empty = length pages - length valid, errors = 0\<rparr>,
                buffer = [], model = m, client = c, slept = 0\<rparr>
      in final_flush cname (foldl (embed_step U cname) s0 (chunks BATCH_SIZE valid)))"

definition init_qdrant :: "string \<Rightarrow> nat \<Rightarrow> qdrant \<Rightarrow> (error + unit) \<times> qdrant" where
  \<comment> \<open>vector_store.py: list the collections, delete this one when it is there, create it,
      index \<^verbatim>\<open>word_count\<close>; an exception of any of the calls leaves the function\<close>
  "init_qdrant cname vsize c =
     (case get_collections c of
        (Inl e, c1) \<Rightarrow> (Inl e, c1)
      | (Inr names, c1) \<Rightarrow>
          (case (if cname \<in> set names then delete_collection c1 cname else (Inr (), c1)) of
             (Inl e, c2) \<Rightarrow> (Inl e, c2)
           | (Inr _, c2) \<Rightarrow>
               (case create_collection c2 cname vsize of
                  (Inl e, c3) \<Rightarrow> (Inl e, c3)
                | (Inr _, c3) \<Rightarrow> create_payload_index c3 cname ''word_count'' INTEGER)))"

text \<open>
  \<^verbatim>\<open>main\<close> of vector_store.py, steps 1 to 4: \<open>loaded\<close> is what \<^verbatim>\<open>load_pages()\<close>
  gives and \<open>mdl\<close> what \<^verbatim>\<open>init_model()\<close> gives, each of which may raise. The result is
  the statistics of \<^verbatim>\<open>process_pages\<close>, or the exception that ended the run, and the
  service as the run leaves it.
\<close>

definition main_vector_store ::
  "(pystr \<Rightarrow> error + pystr) \<Rightarrow> string \<Rightarrow> nat \<Rightarrow> error + page list \<Rightarrow> error + bge_model \<Rightarrow> qdrant
     \<Rightarrow> (error + embed_stats) \<times> qdrant" where
  "main_vector_store U cname vsize loaded mdl c =
     (case loaded of
        Inl e \<Rightarrow> (Inl e, c)
      | Inr pages \<Rightarrow>
          (case mdl of
             Inl e \<Rightarrow> (Inl e, c)
           | Inr m \<Rightarrow>
               (case init_qdrant cname vsize c of
                  (Inl e, c1) \<Rightarrow> (Inl e, c1)
                | (Inr _, c1) \<Rightarrow>
                    (case process_pages U cname pages m c1 of (r, s) \<Rightarrow> (r, client s)))))"

section \<open>The graph store (Neo4j)\<close>

datatype label = Page | CodeFile

datatype rel_kind = SIMILAR_TO | CHILD_OF | LINKS_TO | BELONGS_TO | CREATED_ON

record node =
  n_ident :: nat
  n_label :: label
  n_props :: payload

record rel =
  r_src :: nat
  r_kind :: rel_kind
  r_tgt :: nat
  r_score :: "rat option"

text \<open>The Cypher statements the scripts run, with their parameters.\<close>

datatype cypher =
    ClearSimilar
      \<comment> \<open>\<^verbatim>\<open>MATCH ()-[r:SIMILAR_TO]->() DELETE r\<close>\<close>
  | MergeSimilar label jval jval rat
      \<comment> \<open>\<^verbatim>\<open>MATCH (a:L {key: $1}) MATCH (b:L {key: $2}) MERGE (a)-[r:SIMILAR_TO]->(b) SET r.score = $3 RETURN count(r)\<close>\<close>
  | CreateNode label payload
      \<comment> \<open>\<^verbatim>\<open>CREATE (p:L {...})\<close>\<close>
  | MergeNode label jval payload
      \<comment> \<open>\<^verbatim>\<open>MERGE (c:L {key: $1}) SET c.k = v, ...\<close>\<close>
  | DetachDeleteAll
      \<comment> \<open>\<^verbatim>\<open>MATCH (n) DETACH DELETE n\<close>\<close>
  | CreateConstraint label
      \<comment> \<open>\<^verbatim>\<open>CREATE CONSTRAINT .. IF NOT EXISTS FOR (n:L) REQUIRE n.key IS UNIQUE\<close>\<close>
  | CreateIndex label string
      \<comment> \<open>\<^verbatim>\<open>CREATE INDEX .. IF NOT EXISTS FOR (n:L) ON (n.k)\<close>\<close>

text \<open>
  The session and the database behind it. \<open>unique\<close> lists the labels whose key property
  is under a uniqueness constraint. \<open>n_faults\<close> scripts the coming \<^verbatim>\<open>session.run\<close>
  calls as \<open>faults\<close> does for the vector index; \<open>issued\<close> logs the statements run.
\<close>

record neo4j =
  nodes :: "node list"
  rels :: "rel list"
  unique :: "label list"
  next_ident :: nat
  n_faults :: "bool list"
  issued :: "cypher list"

fun key_of :: "label \<Rightarrow> string" where
  "key_of Page = ''id''"
| "key_of CodeFile = ''path''"

definition matching :: "neo4j \<Rightarrow> label \<Rightarrow> jval \<Rightarrow> node list" where
  \<comment> \<open>\<^verbatim>\<open>MATCH (n:L {key: k})\<close>\<close>
  "matching g l k = filter (\<lambda>n. n_label n = l \<and> map_of (n_props n) (key_of l) = Some k) (nodes g)"

definition node_keys :: "neo4j \<Rightarrow> label \<Rightarrow> jval list" where
  \<comment> \<open>the key property of every node of the label that has one\<close>
  "node_keys g l =
     map (\<lambda>n. the (map_of (n_props n) (key_of l)))
       (filter (\<lambda>n. n_label n = l \<and> map_of (n_props n) (key_of l) \<noteq> None) (nodes g))"

definition links :: "nat \<Rightarrow> nat \<Rightarrow> rel \<Rightarrow> bool" where
  "links a b r = (r_src r = a \<and> r_tgt r = b \<and> r_kind r = SIMILAR_TO)"

definition merge_rel :: "rat \<Rightarrow> rel list \<times> nat \<Rightarrow> node \<times> node \<Rightarrow> rel list \<times> nat" where
  \<comment> \<open>one matched row: the relationships between the two nodes, or a new one; the score is set\<close>
  "merge_rel sc acc ab =
     (let rs = fst acc; a = n_ident (fst ab); b = n_ident (snd ab)
      in if list_ex (links a b) rs
         then (map (\<lambda>r. if links a b r then r\<lparr>r_score := Some sc\<rparr> else r) rs,
               snd acc + length (filter (links a b) rs))
         else (rs @ [\<lparr>r_src = a, r_kind = SIMILAR_TO, r_tgt = b, r_score = Some sc\<rparr>], snd acc + 1))"

definition set_props :: "payload \<Rightarrow> payload \<Rightarrow> payload" where
  \<comment> \<open>\<^verbatim>\<open>SET c.k = v, ...\<close>\<close>
  "set_props kvs props = foldl (\<lambda>d kv. AList.update (fst kv) (snd kv) d) props kvs"

fun exec :: "neo4j \<Rightarrow> cypher \<Rightarrow> (error + nat) \<times> neo4j" where
  "exec g ClearSimilar = (Inr 0, g\<lparr>rels := filter (\<lambda>r. r_kind r \<noteq> SIMILAR_TO) (rels g)\<rparr>)"
| "exec g (MergeSimilar l k1 k2 sc) =
     (let res = foldl (merge_rel sc) (rels g, 0) (List.product (matching g l k1) (matching g l k2))
      in (Inr (snd res), g\<lparr>rels := fst res\<rparr>))"
| "exec g (CreateNode l props) =
     (if l \<in> set (unique g) \<and> map_of props (key_of l) \<noteq> None \<and>
         list_ex (\<lambda>n. n_label n = l \<and> map_of (n_props n) (key_of l) = map_of props (key_of l)) (nodes g)
      then (Inl ConstraintError, g)
      else (Inr 0, g\<lparr>nodes := nodes g @ [\<lparr>n_ident = next_ident g, n_label = l, n_props = props\<rparr>],
                      next_ident := next_ident g + 1\<rparr>))"
| "exec g (MergeNode l k kvs) =
     (if matching g l k = []
      then (Inr 0, g\<lparr>nodes := nodes g @ [\<lparr>n_ident = next_ident g, n_label = l,
                                           n_props = set_props kvs [(key_of l, k)]\<rparr>],
                      next_ident := next_ident g + 1\<rparr>)
      else (Inr 0, g\<lparr>nodes := map (\<lambda>n. if n_label n = l \<and> map_of (n_props n) (key_of l) = Some k
                                        then n\<lparr>n_props := set_props kvs (n_props n)\<rparr> else n) (nodes g)\<rparr>))"
| "exec g DetachDeleteAll = (Inr 0, g\<lparr>nodes := [], rels := []\<rparr>)"
| "exec g (CreateConstraint l) =
     (if l \<in> set (unique g) then (Inr 0, g)
      else if distinct (node_keys g l) then (Inr 0, g\<lparr>unique := unique g @ [l]\<rparr>)
      else (Inl ConstraintError, g))"
| "exec g (CreateIndex l k) = (Inr 0, g)"

definition run :: "neo4j \<Rightarrow> cypher \<Rightarrow> (error + nat) \<times> neo4j" where
  \<comment> \<open>\<^verbatim>\<open>session.run(statement, parameters)\<close>; the number is the count the statement returns\<close>
  "run g q =
     (let g1 = g\<lparr>issued := issued g @ [q]\<rparr>
      in case n_faults g of
           [] \<Rightarrow> exec g1 q
         | False # fs \<Rightarrow> exec (g1\<lparr>n_faults := fs\<rparr>) q
         | True # fs \<Rightarrow> (Inl Neo4jError, g1\<lparr>n_faults := fs\<rparr>))"

section \<open>similarity_edges.py: SIMILAR_TO between Notion pages\<close>

definition TOP_K :: nat where "TOP_K = 5"

record edge_stats =
  created :: nat
  skipped :: nat

function fetch_all :: "qdrant \<Rightarrow> string \<Rightarrow> nat option \<Rightarrow> point list \<Rightarrow> error + point list" where
  \<comment> \<open>the \<^verbatim>\<open>while True\<close> loop over \<^verbatim>\<open>qdrant.scroll(limit=100, offset=offset)\<close>\<close>
  "fetch_all c name offset acc =
     (case scroll c name 100 offset of
        Inl e \<Rightarrow> Inl e
      | Inr (pts, None) \<Rightarrow> Inr (acc @ pts)
      | Inr (pts, Some k) \<Rightarrow> fetch_all c name (Some k) (acc @ pts))"
  by pat_completeness auto
termination
proof (relation "measure (\<lambda>(c, name, offset, acc).
          (case map_of (collections c) name of
             None \<Rightarrow> 0
           | Some col \<Rightarrow> (case offset of None \<Rightarrow> Suc (length (points col))
                                      | Some k \<Rightarrow> length (points col) - k)))")
  show "wf (measure (\<lambda>(c, name, offset, acc).
          (case map_of (collections c) name of
             None \<Rightarrow> 0
           | Some col \<Rightarrow> (case offset of None \<Rightarrow> Suc (length (points col))
                                      | Some k \<Rightarrow> length (points col) - k))))"
    by simp
next
  fix c :: qdrant and name :: string and offset :: "nat option" and acc :: "point list"
    and x2 :: "point list \<times> nat option" and x1 :: "point list" and x2a :: "nat option" and x2b :: nat
  assume "scroll c name 100 offset = Inr x2" "(x1, x2a) = x2" "x2a = Some x2b"
  then show "((c, name, Some x2b, acc @ x1), c, name, offset, acc)
       \<in> measure (\<lambda>(c, name, offset, acc).
          (case map_of (collections c) name of
             None \<Rightarrow> 0
           | Some col \<Rightarrow> (case offset of None \<Rightarrow> Suc (length (points col))
                                      | Some k \<Rightarrow> length (points col) - k)))"
    by (auto simp: scroll_def Let_def split: option.splits if_splits)
qed

declare fetch_all.simps [simp del]

definition merge_similar :: "label \<Rightarrow> jval \<Rightarrow> jval \<Rightarrow> rat \<Rightarrow> edge_stats \<times> neo4j \<Rightarrow> (error + unit) \<times> edge_stats \<times> neo4j" where
  \<comment> \<open>\<^verbatim>\<open>result = session.run(MATCH .. MERGE ..); if result.single()["created"] > 0: stats["created"] += 1\<close>\<close>
  "merge_similar l k1 k2 sc sg =
     (case run (snd sg) (MergeSimilar l k1 k2 sc) of
        (Inl e, g1) \<Rightarrow> (Inl e, fst sg, g1)
      | (Inr n, g1) \<Rightarrow>
          (Inr (), if 0 < n then (fst sg)\<lparr>created := created (fst sg) + 1\<rparr> else fst sg, g1))"

fun notion_hits :: "rat \<Rightarrow> jval \<Rightarrow> hit list \<Rightarrow> edge_stats \<times> neo4j \<Rightarrow> edge_stats \<times> neo4j" where
  \<comment> \<open>\<^verbatim>\<open>for hit in results.points\<close> of similarity_edges.py\<close>
  "notion_hits thr notion_id [] sg = sg"
| "notion_hits thr notion_id (h # hs) sg =
     (let similar_id = dict_get (h_payload h) ''notion_id'' (JStr [])
      in if similar_id = notion_id then notion_hits thr notion_id hs sg
         else if h_score h < thr
         then notion_hits thr notion_id hs ((fst sg)\<lparr>skipped := skipped (fst sg) + 1\<rparr>, snd sg)
         else notion_hits thr notion_id hs
                (snd (merge_similar Page notion_id similar_id (py_round (h_score h) 3) sg)))"

definition notion_point ::
  "rat \<Rightarrow> string \<Rightarrow> point \<Rightarrow> edge_stats \<times> neo4j \<times> qdrant \<Rightarrow> error + edge_stats \<times> neo4j \<times> qdrant" where
  \<comment> \<open>the body of \<^verbatim>\<open>for point in all_points\<close>; the query is outside any \<^verbatim>\<open>try\<close>\<close>
  "notion_point thr cname pt w =
     (let notion_id = dict_get (p_payload pt) ''notion_id'' (JStr [])
      in if falsy notion_id then Inr w
         else (case query_points (snd (snd w)) cname (p_vector pt) (TOP_K + 1) of
                 (Inl e, c1) \<Rightarrow> Inl e
               | (Inr hs, c1) \<Rightarrow>
                   (let sg = notion_hits thr notion_id hs (fst w, fst (snd w))
                    in Inr (fst sg, snd sg, c1))))"

fun notion_pass ::
  "rat \<Rightarrow> string \<Rightarrow> point list \<Rightarrow> edge_stats \<times> neo4j \<times> qdrant \<Rightarrow> error + edge_stats \<times> neo4j \<times> qdrant" where
  "notion_pass thr cname [] w = Inr w"
| "notion_pass thr cname (pt # pts) w =
     (case notion_point thr cname pt w of
        Inl e \<Rightarrow> Inl e
      | Inr w1 \<Rightarrow> notion_pass thr cname pts w1)"

definition create_similarity_edges ::
  "rat \<Rightarrow> string \<Rightarrow> qdrant \<Rightarrow> neo4j \<Rightarrow> error + edge_stats \<times> neo4j \<times> qdrant" where
  \<comment> \<open>similarity_edges.py; \<open>thr\<close> is \<^verbatim>\<open>SIMILARITY_THRESHOLD\<close> (0.75 unless the environment sets it)\<close>
  "create_similarity_edges thr cname c g =
     (case fetch_all c cname None [] of
        Inl e \<Rightarrow> Inl e
      | Inr all_points \<Rightarrow>
          (case run g ClearSimilar of
             (Inl e, g1) \<Rightarrow> Inl e
           | (Inr _, g1) \<Rightarrow>
               notion_pass thr cname all_points (\<lparr>created = 0, skipped = 0\<rparr>, g1, c)))"

section \<open>code_graph_builder.py: SIMILAR_TO between code files\<close>

definition SIMILARITY_THRESHOLD :: rat where "SIMILARITY_THRESHOLD = 75 / 100"
definition TOP_K_SIMILAR :: nat where "TOP_K_SIMILAR = 10"
definition CODE_COLLECTION :: string where "CODE_COLLECTION = ''kidsnote_ios''"

fun code_hits :: "point \<Rightarrow> jval \<Rightarrow> hit list \<Rightarrow> edge_stats \<times> neo4j \<Rightarrow> (error + unit) \<times> edge_stats \<times> neo4j" where
  \<comment> \<open>\<^verbatim>\<open>for hit in results.points\<close> of code_graph_builder.py; an exception ends the loop\<close>
  "code_hits pt source_path [] sg = (Inr (), sg)"
| "code_hits pt source_path (h # hs) sg =
     (if h_id h = p_id pt then code_hits pt source_path hs sg
      else if h_score h < SIMILARITY_THRESHOLD
      then code_hits pt source_path hs ((fst sg)\<lparr>skipped := skipped (fst sg) + 1\<rparr>, snd sg)
      else (let target_path = dict_get (h_payload h) ''relative_path'' (JStr [])
            in case py_lt source_path target_path of
                 Inl e \<Rightarrow> (Inl e, sg)
               | Inr False \<Rightarrow> code_hits pt source_path hs sg
               | Inr True \<Rightarrow>
                   (case merge_similar CodeFile source_path target_path (h_score h) sg of
                      (Inl e, sg1) \<Rightarrow> (Inl e, sg1)
                    | (Inr _, sg1) \<Rightarrow> code_hits pt source_path hs sg1)))"

definition code_point :: "point \<Rightarrow> edge_stats \<times> neo4j \<times> qdrant \<Rightarrow> edge_stats \<times> neo4j \<times> qdrant" where
  \<comment> \<open>the body of \<^verbatim>\<open>for point in points\<close>: all of it in one \<^verbatim>\<open>try\<close>, whose handler only prints\<close>
  "code_point pt w =
     (case query_points (snd (snd w)) CODE_COLLECTION (p_vector pt) (TOP_K_SIMILAR + 1) of
        (Inl e, c1) \<Rightarrow> (fst w, fst (snd w), c1)
      | (Inr hs, c1) \<Rightarrow>
          (let source_path = dict_get (p_payload pt) ''relative_path'' (JStr []);
               res = code_hits pt source_path hs (fst w, fst (snd w))
           in (fst (snd res), snd (snd res), c1)))"

definition create_similarity_edges_code :: "neo4j \<Rightarrow> qdrant \<Rightarrow> point list \<Rightarrow> edge_stats \<times> neo4j \<times> qdrant" where
  \<comment> \<open>code_graph_builder.py; the dictionary \<^verbatim>\<open>id_to_path\<close> it builds first is never read\<close>
  "create_similarity_edges_code g c pts = foldl (\<lambda>w pt. code_point pt w) (\<lparr>created = 0, skipped = 0\<rparr>, g, c) pts"

section \<open>graph_builder.py: Page nodes\<close>

record node_stats =
  n_created :: nat
  n_errors :: nat

definition clear_database :: "neo4j \<Rightarrow> error + neo4j" where
  "clear_database g = (case run g DetachDeleteAll of (Inl e, g1) \<Rightarrow> Inl e | (Inr _, g1) \<Rightarrow> Inr g1)"

definition create_constraints :: "neo4j \<Rightarrow> neo4j" where
  \<comment> \<open>three statements, each in a \<^verbatim>\<open>try\<close> whose handler only prints\<close>
  "create_constraints g =
     snd (run (snd (run (snd (run g (CreateConstraint Page))) (CreateIndex Page ''title'')))
            (CreateIndex Page ''createdAt''))"

definition py_or :: "pystr \<Rightarrow> pystr \<Rightarrow> pystr" where
  \<comment> \<open>\<^verbatim>\<open>a or b\<close> on strings\<close>
  "py_or a b = (if a \<noteq> [] then a else b)"

definition page_props :: "page \<Rightarrow> payload" where
  "page_props pg =
     [(''id'', JStr (pg_id pg)),
      (''title'', JStr (case pg_title pg of None \<Rightarrow> py ''Untitled'' | Some t \<Rightarrow> t)),
      (''url'', JStr (pg_url pg)),
      (''wordCount'', JInt (pg_word_count pg)),
      (''blockCount'', JInt (pg_block_count pg)),
      (''createdAt'', JStr (pg_created_time pg)),
      (''updatedAt'', JStr (pg_last_edited_time pg)),
      (''parentId'', JStr (py_or (pg_parent_page_id pg) (pg_parent_database_id pg))),
      (''parentType'', JStr (pg_parent_type pg))]"

definition create_page :: "node_stats \<times> neo4j \<Rightarrow> page \<Rightarrow> node_stats \<times> neo4j" where
  \<comment> \<open>the body of \<^verbatim>\<open>for page in pages\<close>: \<^verbatim>\<open>CREATE\<close> in a \<^verbatim>\<open>try\<close> that counts the failure\<close>
  "create_page sg pg =
     (case run (snd sg) (CreateNode Page (page_props pg)) of
        (Inl _, g1) \<Rightarrow> ((fst sg)\<lparr>n_errors := n_errors (fst sg) + 1\<rparr>, g1)
      | (Inr _, g1) \<Rightarrow> ((fst sg)\<lparr>n_created := n_created (fst sg) + 1\<rparr>, g1))"

definition create_page_nodes :: "neo4j \<Rightarrow> page list \<Rightarrow> node_stats \<times> neo4j" where
  "create_page_nodes g pages = foldl create_page (\<lparr>n_created = 0, n_errors = 0\<rparr>, g) pages"

section \<open>code_graph_builder.py: CodeFile nodes\<close>

record code_node_stats =
  cn_created :: nat
  cn_errors :: nat
  cn_modules :: "jval list"

definition code_props :: "payload \<Rightarrow> jval \<Rightarrow> payload" where
  "code_props pl modl =
     [(''name'', dict_get pl ''file_name'' (JStr [])),
      (''module'', modl),
      (''subpath'', dict_get pl ''subpath'' (JStr [])),
      (''lines'', dict_get pl ''lines'' (JInt 0)),
      (''imports'', dict_get pl ''imports'' (JList [])),
      (''classes'', dict_get pl ''classes'' (JList [])),
      (''structs'', dict_get pl ''structs'' (JList [])),
      (''protocols'', dict_get pl ''protocols'' (JList []))]"

definition hashable :: "jval \<Rightarrow> bool" where
  \<comment> \<open>\<^verbatim>\<open>set.add\<close> raises \<^verbatim>\<open>TypeError\<close> on a list\<close>
  "hashable v = (case v of JList _ \<Rightarrow> False | _ \<Rightarrow> True)"

definition create_code :: "code_node_stats \<times> neo4j \<Rightarrow> point \<Rightarrow> code_node_stats \<times> neo4j" where
  \<comment> \<open>the body of \<^verbatim>\<open>for point in points\<close>: \<^verbatim>\<open>MERGE\<close> by path, then \<^verbatim>\<open>SET\<close>\<close>
  "create_code sg pt =
     (let pl = p_payload pt; modl = dict_get pl ''module'' (JStr (py ''Unknown''))
      in if \<not> hashable modl then ((fst sg)\<lparr>cn_errors := cn_errors (fst sg) + 1\<rparr>, snd sg)
         else (let st = (fst sg)\<lparr>cn_modules := List.insert modl (cn_modules (fst sg))\<rparr>
               in case run (snd sg) (MergeNode CodeFile (dict_get pl ''relative_path'' (JStr []))
                                       (code_props pl modl)) of
                    (Inl _, g1) \<Rightarrow> (st\<lparr>cn_errors := cn_errors st + 1\<rparr>, g1)
                  | (Inr _, g1) \<Rightarrow> (st\<lparr>cn_created := cn_created st + 1\<rparr>, g1)))"

definition create_code_nodes :: "neo4j \<Rightarrow> point list \<Rightarrow> code_node_stats \<times> neo4j" where
  "create_code_nodes g pts =
     foldl create_code (\<lparr>cn_created = 0, cn_errors = 0, cn_modules = []\<rparr>, g) pts"

section \<open>code_embedder.py: embedding the Swift files\<close>

definition MAX_TEXT_LENGTH_code :: nat where "MAX_TEXT_LENGTH_code = 4096"
definition MAX_CHARS :: nat where "MAX_CHARS = 8000"
definition UPSERT_BATCH_SIZE_code :: nat where "UPSERT_BATCH_SIZE_code = 20"
definition COLLECTION_NAME_code :: string where "COLLECTION_NAME_code = ''kidsnote_ios''"

text \<open>
  A file found under the source directory: the parts of its path relative to the
  directory, and what \<^verbatim>\<open>read_text\<close> gives.
\<close>

record swift_file =
  sf_parts :: "pystr list"
  sf_read :: "error + pystr"

record swift_info =
  si_imports :: "pystr list"
  si_classes :: "pystr list"
  si_structs :: "pystr list"
  si_enums :: "pystr list"
  si_protocols :: "pystr list"
  si_extensions :: "pystr list"
  si_functions :: "pystr list"

record code_meta =
  md_file_name :: pystr
  md_module_name :: pystr
  md_subpath :: pystr
  md_relative_path :: pystr
  md_extension :: pystr
  md_info :: swift_info

definition join :: "pystr \<Rightarrow> pystr list \<Rightarrow> pystr" where
  \<comment> \<open>\<^verbatim>\<open>sep.join(parts)\<close>\<close>
  "join sep parts = (case parts of [] \<Rightarrow> [] | p # ps \<Rightarrow> foldl (\<lambda>a b. a @ sep @ b) p ps)"

definition suffix_of :: "pystr \<Rightarrow> pystr" where
  \<comment> \<open>\<^verbatim>\<open>Path.suffix\<close>: from the last dot (U+002E), unless the name starts or ends there\<close>
  "suffix_of name =
     (let after = rev (takeWhile (\<lambda>ch. ch \<noteq> 0x2E) (rev name))
      in if 0x2E \<in> set name \<and> after \<noteq> [] \<and> Suc (length after) < length name
         then 0x2E # after else [])"

definition extract_metadata :: "pystr list \<Rightarrow> swift_info \<Rightarrow> code_meta" where
  \<comment> \<open>with \<^verbatim>\<open>metadata.update(swift_info)\<close> of the caller\<close>
  "extract_metadata parts si =
     \<lparr>md_file_name = (if parts = [] then [] else last parts),
      md_module_name = (if 1 < length parts then hd parts else py ''Root''),
      md_subpath = (if 2 < length parts then join (py ''/'') (butlast (tl parts)) else []),
      md_relative_path = join (py ''/'') parts,
      md_extension = suffix_of (if parts = [] then [] else last parts),
      md_info = si\<rparr>"

definition prepare_code_for_embedding :: "pystr \<Rightarrow> code_meta \<Rightarrow> pystr" where
  "prepare_code_for_embedding content md =
     (let header = py ''File: '' @ md_file_name md @ [0x0A] @ py ''Module: '' @ md_module_name md
                   @ [0x0A, 0x0A];
          t = header @ content
      in if MAX_CHARS < length t then take MAX_CHARS t else t)"

definition file_to_uuid :: "(pystr \<Rightarrow> pystr) \<Rightarrow> pystr \<Rightarrow> pystr" where
  \<comment> \<open>\<open>H\<close> is \<^verbatim>\<open>hashlib.md5(s.encode()).hexdigest()\<close>\<close>
  "file_to_uuid H file_path =
     (let h = H file_path
      in take 8 h @ py ''-'' @ take 4 (drop 8 h) @ py ''-'' @ take 4 (drop 12 h) @ py ''-''
         @ take 4 (drop 16 h) @ py ''-'' @ take 12 (drop 20 h))"

definition line_end :: "nat \<Rightarrow> bool" where
  \<comment> \<open>the line boundaries of \<^verbatim>\<open>str.splitlines()\<close>: U+000A-000D, U+001C-001E, U+0085, U+2028,
      U+2029\<close>
  "line_end ch =
     ((0x0A \<le> ch \<and> ch \<le> 0x0D) \<or> (0x1C \<le> ch \<and> ch \<le> 0x1E) \<or> ch = 0x85 \<or> ch = 0x2028 \<or>
      ch = 0x2029)"

fun count_lines :: "pystr \<Rightarrow> nat" where
  \<comment> \<open>\<^verbatim>\<open>len(content.splitlines())\<close>; a carriage return and the line feed after it are one
      boundary\<close>
  "count_lines [] = 0"
| "count_lines [ch] = 1"
| "count_lines (ch # ch' # rest) =
     (if ch = 0x0D \<and> ch' = 0x0A then (if rest = [] then 1 else Suc (count_lines rest))
      else if line_end ch
      then Suc (count_lines (ch' # rest))
      else count_lines (ch' # rest))"

definition embed_batch_code :: "bge_model \<Rightarrow> pystr list \<Rightarrow> (error + vector list) \<times> bge_model" where
  "embed_batch_code m ts =
     encode m \<lparr>texts = ts, batch_size = length ts, max_length = MAX_TEXT_LENGTH_code,
               return_dense = True, return_sparse = False, return_colbert_vecs = False\<rparr>"

type_synonym valid_file = "swift_file \<times> pystr \<times> code_meta \<times> pystr"

definition file_point :: "(pystr \<Rightarrow> pystr) \<Rightarrow> valid_file \<Rightarrow> vector \<Rightarrow> point" where
  "file_point H vf v =
     (let content = fst (snd vf); md = fst (snd (snd vf))
      in \<lparr>p_id = file_to_uuid H (join (py ''/'') (sf_parts (fst vf))), p_vector = v,
          p_payload =
            [(''file_name'', JStr (md_file_name md)),
             (''module'', JStr (md_module_name md)),
             (''subpath'', JStr (md_subpath md)),
             (''relative_path'', JStr (md_relative_path md)),
             (''lines'', JInt (int (count_lines content))),
             (''imports'', JList (si_imports (md_info md))),
             (''classes'', JList (si_classes (md_info md))),
             (''structs'', JList (si_structs (md_info md))),
             (''protocols'', JList (si_protocols (md_info md))),
             (''content_preview'', JStr (take 1000 content))]\<rparr>)"

definition flush_once :: "pipeline \<Rightarrow> pipeline" where
  \<comment> \<open>lines 276-283 of code_embedder.py: upsert, and on failure drop\<close>
  "flush_once s =
     (if UPSERT_BATCH_SIZE_code \<le> length (buffer s) then
        (case upsert (client s) COLLECTION_NAME_code (buffer s) of
           (Inr _, c1) \<Rightarrow> s\<lparr>client := c1, buffer := []\<rparr>
         | (Inl _, c1) \<Rightarrow>
             s\<lparr>client := c1,
               stats := (stats s)\<lparr>errors := errors (stats s) + length (buffer s)\<rparr>,
               buffer := []\<rparr>)
      else s)"

definition embed_step_code :: "(pystr \<Rightarrow> pystr) \<Rightarrow> pipeline \<Rightarrow> valid_file list \<Rightarrow> pipeline" where
  \<comment> \<open>one iteration of the loop over \<^verbatim>\<open>range(0, len(valid_files), BATCH_SIZE)\<close>\<close>
  "embed_step_code H s batch =
     (case embed_batch_code (model s) (map (\<lambda>vf. snd (snd (snd vf))) batch) of
        (Inl _, m1) \<Rightarrow>
          s\<lparr>model := m1, stats := (stats s)\<lparr>errors := errors (stats s) + BATCH_SIZE\<rparr>\<rparr>
      | (Inr vectors, m1) \<Rightarrow>
          flush_once
            (s\<lparr>model := m1,
               buffer := buffer s @ map (\<lambda>bv. file_point H (fst bv) (snd bv)) (zip batch vectors),
               stats := (stats s)\<lparr>processed := processed (stats s) + length (zip batch vectors)\<rparr>\<rparr>))"

text \<open>
  The first loop of \<^verbatim>\<open>process_files\<close>: the files read and prepared, the statistics, and
  the modules seen. \<open>X\<close> is \<^verbatim>\<open>extract_swift_info\<close>, a regular-expression scan of the content.
\<close>

fun read_files ::
  "(pystr \<Rightarrow> swift_info) \<Rightarrow> swift_file list \<Rightarrow> valid_file list \<times> embed_stats \<times> pystr list
     \<Rightarrow> valid_file list \<times> embed_stats \<times> pystr list" where
  "read_files X [] acc = acc"
| "read_files X (f # fs) acc =
     (let valid = fst acc; st = fst (snd acc); mods = snd (snd acc)
      in case sf_read f of
           Inl _ \<Rightarrow> read_files X fs (valid, st\<lparr>errors := errors st + 1\<rparr>, mods)
         | Inr content \<Rightarrow>
             if \<not> strip_nonempty content
             then read_files X fs (valid, st\<lparr>skipped_empty := skipped_empty st + 1\<rparr>, mods)
             else (let md = extract_metadata (sf_parts f) (X content);
                       t = prepare_code_for_embedding content md
                   in read_files X fs
                        (valid @ [(f, content, md, t)], st, List.insert (md_module_name md) mods)))"

definition process_files ::
  "(pystr \<Rightarrow> swift_info) \<Rightarrow> (pystr \<Rightarrow> pystr) \<Rightarrow> swift_file list \<Rightarrow> bge_model \<Rightarrow> qdrant
     \<Rightarrow> (error + embed_stats \<times> pystr list) \<times> pipeline" where
  "process_files X H files m c =
     (let prep = read_files X files
                   ([], \<lparr>total = length files, processed = 0, skipped_empty = 0, errors = 0\<rparr>, []);
          s0 = \<lparr>stats = fst (snd prep), buffer = [], model = m, client = c, slept = 0\<rparr>;
          s1 = foldl (embed_step_code H) s0 (chunks BATCH_SIZE (fst prep))
      in if buffer s1 \<noteq> [] then
           (case upsert (client s1) COLLECTION_NAME_code (buffer s1) of
              (Inl e, c1) \<Rightarrow> (Inl e, s1\<lparr>client := c1\<rparr>)
            | (Inr _, c1) \<Rightarrow> (Inr (stats s1, sort (snd (snd prep))), s1\<lparr>client := c1\<rparr>))
         else (Inr (stats s1, sort (snd (snd prep))), s1))"

definition init_qdrant_code :: "bool \<Rightarrow> qdrant \<Rightarrow> (error + unit) \<times> qdrant" where
  \<comment> \<open>code_embedder.py: \<^verbatim>\<open>init_qdrant(recreate)\<close>\<close>
  "init_qdrant_code recreate c =
     (case get_collections c of
        (Inl e, c1) \<Rightarrow> (Inl e, c1)
      | (Inr names, c1) \<Rightarrow>
          (if COLLECTION_NAME_code \<in> set names \<and> \<not> recreate then (Inr (), c1)
           else
             (case (if COLLECTION_NAME_code \<in> set names
                    then delete_collection c1 COLLECTION_NAME_code else (Inr (), c1)) of
                (Inl e, c2) \<Rightarrow> (Inl e, c2)
              | (Inr _, c2) \<Rightarrow>
                  (case create_collection c2 COLLECTION_NAME_code VECTOR_DIM of
                     (Inl e, c3) \<Rightarrow> (Inl e, c3)
                   | (Inr _, c3) \<Rightarrow>
                       (case create_payload_index c3 COLLECTION_NAME_code ''module'' KEYWORD of
                          (Inl e, c4) \<Rightarrow> (Inl e, c4)
                        | (Inr _, c4) \<Rightarrow>
                            create_payload_index c4 COLLECTION_NAME_code ''lines'' INTEGER)))))"

text \<open>
  \<^verbatim>\<open>main\<close> of code_embedder.py, steps 1 to 4: \<open>swift_files\<close> is what
  \<^verbatim>\<open>find_swift_files\<close> found and \<open>mdl\<close> what \<^verbatim>\<open>init_model()\<close> gives. With no file
  found \<^verbatim>\<open>main\<close> returns at once (\<open>None\<close>), before the model and the client exist.
\<close>

definition main_code_embedder ::
  "(pystr \<Rightarrow> swift_info) \<Rightarrow> (pystr \<Rightarrow> pystr) \<Rightarrow> swift_file list \<Rightarrow> error + bge_model \<Rightarrow> qdrant
     \<Rightarrow> (error + embed_stats \<times> pystr list) option \<times> qdrant" where
  "main_code_embedder X H swift_files mdl c =
     (if swift_files = [] then (None, c)
      else
        (case mdl of
           Inl e \<Rightarrow> (Some (Inl e), c)
         | Inr m \<Rightarrow>
             (case init_qdrant_code True c of
                (Inl e, c1) \<Rightarrow> (Some (Inl e), c1)
              | (Inr _, c1) \<Rightarrow>
                  (case process_files X H swift_files m c1 of (r, s) \<Rightarrow> (Some r, client s)))))"

section \<open>Vocabulary of the statements\<close>

definition similar_id :: "hit \<Rightarrow> jval" where
  "similar_id h = dict_get (h_payload h) ''notion_id'' (JStr [])"

definition target_path :: "hit \<Rightarrow> jval" where
  "target_path h = dict_get (h_payload h) ''relative_path'' (JStr [])"

definition dense_request :: "pystr list \<Rightarrow> encode_request" where
  \<comment> \<open>one call for the texts of a chunk, asking for dense vectors only\<close>
  "dense_request ts =
     \<lparr>texts = ts, batch_size = length ts, max_length = 2048,
      return_dense = True, return_sparse = False, return_colbert_vecs = False\<rparr>"

definition chunk_points :: "(pystr \<Rightarrow> error + pystr) \<Rightarrow> bge_model \<Rightarrow> (page \<times> pystr) list \<Rightarrow> point list" where
  \<comment> \<open>what a chunk should give: nothing when the model fails on its texts, else the k-th page
      with the k-th vector of the model's answer\<close>
  "chunk_points U m b =
     (case respond m (dense_request (map snd b)) of
        Inl _ \<Rightarrow> []
      | Inr vectors \<Rightarrow>
          map (\<lambda>k. \<lparr>p_id = (case notion_id_to_uuid U (pg_id (fst (b ! k))) of Inl _ \<Rightarrow> [] | Inr u \<Rightarrow> u),
                     p_vector = vectors ! k, p_payload = page_payload (fst (b ! k))\<rparr>)
            [0 ..< min (length b) (length vectors)])"

definition written :: "pipeline \<Rightarrow> point list" where
  \<comment> \<open>the points upserted so far, then those buffered\<close>
  "written s = concat (upserted (client s)) @ buffer s"

definition ids_ok :: "(pystr \<Rightarrow> error + pystr) \<Rightarrow> page list \<Rightarrow> bool" where
  \<comment> \<open>every page id converts to an index id\<close>
  "ids_ok U pages = list_all (\<lambda>pg. case notion_id_to_uuid U (pg_id pg) of Inl _ \<Rightarrow> False | Inr _ \<Rightarrow> True) pages"

definition reachable :: "string \<Rightarrow> qdrant \<Rightarrow> bool" where
  \<comment> \<open>no upsert is scripted to fail, and the collection exists\<close>
  "reachable cname c = (faults c = [] \<and> cname \<in> set (map fst (collections c)))"

definition stored :: "qdrant \<Rightarrow> string \<Rightarrow> point list" where
  \<comment> \<open>the points the service holds in a collection\<close>
  "stored c name = (case map_of (collections c) name of None \<Rightarrow> [] | Some col \<Rightarrow> points col)"

definition no_admin_fault :: "qdrant \<Rightarrow> bool" where
  \<comment> \<open>no call that lists, deletes, creates or indexes a collection is scripted to fail\<close>
  "no_admin_fault c = list_all (\<lambda>b. b = False) (admin_faults c)"

section \<open>Concrete inputs\<close>

text \<open>
  \<^verbatim>\<open>str(uuid.UUID(s))\<close> on a string of 32 hexadecimal digits, which is what the id of a
  Notion page is without its hyphens: the digits in lower case, grouped 8-4-4-4-12. Any
  other string is refused here.
\<close>

definition hex_digit :: "nat \<Rightarrow> bool" where
  "hex_digit ch = ((0x30 \<le> ch \<and> ch \<le> 0x39) \<or> (0x41 \<le> ch \<and> ch \<le> 0x46) \<or> (0x61 \<le> ch \<and> ch \<le> 0x66))"

definition lower_hex :: "nat \<Rightarrow> nat" where
  "lower_hex ch = (if 0x41 \<le> ch \<and> ch \<le> 0x46 then ch + 0x20 else ch)"

definition uuid_text :: "pystr \<Rightarrow> error + pystr" where
  "uuid_text s =
     (if length s = 32 \<and> list_all hex_digit s
      then (let h = map lower_hex s
            in Inr (take 8 h @ [0x2D] @ take 4 (drop 8 h) @ [0x2D] @ take 4 (drop 12 h) @ [0x2D]
                    @ take 4 (drop 16 h) @ [0x2D] @ take 12 (drop 20 h)))
      else Inl ValueError)"

definition axis :: "nat \<Rightarrow> vector" where
  \<comment> \<open>a unit vector of the 1024 dimensions of the model\<close>
  "axis k = (replicate 1024 0)[k := 1]"

definition page_id :: "nat \<Rightarrow> pystr" where
  \<comment> \<open>the id of the k-th page (k from 0 to 9), as Notion writes it\<close>
  "page_id k = [0x30 + k] @ py ''0000000-0000-4000-8000-000000000000''"

definition page_of :: "nat \<Rightarrow> string \<Rightarrow> pystr \<Rightarrow> page" where
  "page_of k title content =
     \<lparr>pg_id = page_id k, pg_title = Some (py title), pg_content = content,
      pg_created_time = py ''2024-01-01T00:00:00.000Z'',
      pg_last_edited_time = py ''2024-01-02T00:00:00.000Z'',
      pg_url = py ''https://www.notion.so/'' @ filter (\<lambda>ch. ch \<noteq> 0x2D) (page_id k),
      pg_word_count = 1, pg_block_count = 1,
      pg_parent_page_id = [], pg_parent_database_id = [], pg_parent_type = py ''workspace'',
      pg_tags = [], pg_links = []\<rparr>"

definition pgA :: page where "pgA = page_of 1 ''A'' (py ''alpha'')"

definition pgB :: page where "pgB = page_of 2 ''B'' (py ''beta'')"

definition m_fail :: bge_model where
  "m_fail = \<lparr>respond = (\<lambda>_. Inl ModelError), calls = []\<rparr>"

definition m_ok :: bge_model where
  \<comment> \<open>one vector per text, a different one for texts of different lengths\<close>
  "m_ok = \<lparr>respond = (\<lambda>req. Inr (map (\<lambda>t. axis (length t mod 1024)) (texts req))), calls = []\<rparr>"

definition empty_col :: collection where
  "empty_col = \<lparr>vec_size = 1024, indexes = [], points = []\<rparr>"

definition c_faulty :: "bool list \<Rightarrow> qdrant" where
  \<comment> \<open>both collections exist and are empty; \<open>fs\<close> scripts the upserts\<close>
  "c_faulty fs =
     \<lparr>collections = [(''notion_pages'', empty_col), (''kidsnote_ios'', empty_col)],
      faults = fs, admin_faults = [], search = (\<lambda>_ _. Inr []), upserted = [], queried = []\<rparr>"

definition ptA :: point where
  \<comment> \<open>the point of page A in the collection of the pages\<close>
  "ptA = \<lparr>p_id = page_id 1, p_vector = axis 0, p_payload = page_payload pgA\<rparr>"

definition ptB :: point where
  "ptB = \<lparr>p_id = page_id 2, p_vector = axis 1, p_payload = page_payload pgB\<rparr>"

definition file_payload :: "string \<Rightarrow> payload" where
  \<comment> \<open>the payload \<^verbatim>\<open>process_files\<close> writes for a one-line file at the root of the sources\<close>
  "file_payload name =
     [(''file_name'', JStr (py name)),
      (''module'', JStr (py ''Root'')),
      (''subpath'', JStr []),
      (''relative_path'', JStr (py name)),
      (''lines'', JInt 1),
      (''imports'', JList [py ''UIKit'']),
      (''classes'', JList []),
      (''structs'', JList []),
      (''protocols'', JList []),
      (''content_preview'', JStr (py ''import UIKit''))]"

definition fileA :: point where
  \<comment> \<open>the point of a.swift in the collection of the code; the id is the MD5 of the path\<close>
  "fileA = \<lparr>p_id = py ''3721d2e2-ce1f-8e78-4eab-a1159c6a7608'', p_vector = axis 0,
             p_payload = file_payload ''a.swift''\<rparr>"

definition fileB :: point where
  "fileB = \<lparr>p_id = py ''29556905-e0f6-b895-abc9-18b8f71f278b'', p_vector = axis 1,
             p_payload = file_payload ''b.swift''\<rparr>"

definition hit_of :: "point \<Rightarrow> rat \<Rightarrow> hit" where
  "hit_of pt sc = \<lparr>h_id = p_id pt, h_score = sc, h_payload = p_payload pt\<rparr>"

definition two_points :: "rat \<Rightarrow> qdrant" where
  \<comment> \<open>two pages and two files stored, each the other's neighbour with score \<open>sc\<close>\<close>
  "two_points sc =
     \<lparr>collections = [(''notion_pages'', \<lparr>vec_size = 1024, indexes = [], points = [ptA, ptB]\<rparr>),
                     (''kidsnote_ios'', \<lparr>vec_size = 1024, indexes = [], points = [fileA, fileB]\<rparr>)],
      faults = [], admin_faults = [],
      search = (\<lambda>name v.
                  if name = ''notion_pages''
                  then (if v = axis 0 then Inr [hit_of ptA 1, hit_of ptB sc]
                        else Inr [hit_of ptB 1, hit_of ptA sc])
                  else (if v = axis 0 then Inr [hit_of fileA 1, hit_of fileB sc]
                        else Inr [hit_of fileB 1, hit_of fileA sc])),
      upserted = [], queried = []\<rparr>"

definition two_nodes :: "label \<Rightarrow> rel list \<Rightarrow> neo4j" where
  \<comment> \<open>the two documents as nodes 0 and 1, and the relationships \<open>rs\<close>\<close>
  "two_nodes l rs =
     \<lparr>nodes = [\<lparr>n_ident = 0, n_label = l,
                 n_props = [(key_of l, JStr (if l = Page then page_id 1 else py ''a.swift''))]\<rparr>,
               \<lparr>n_ident = 1, n_label = l,
                 n_props = [(key_of l, JStr (if l = Page then page_id 2 else py ''b.swift''))]\<rparr>],
      rels = rs, unique = [l], next_ident = 2, n_faults = [], issued = []\<rparr>"

definition full_buffer :: "bool list \<Rightarrow> pipeline" where
  \<comment> \<open>\<^verbatim>\<open>process_files\<close> with twenty points buffered, before the periodic upsert\<close>
  "full_buffer fs =
     \<lparr>stats = \<lparr>total = 20, processed = 20, skipped_empty = 0, errors = 0\<rparr>,
      buffer = replicate 20 fileA, model = m_ok, client = c_faulty fs, slept = 0\<rparr>"

definition st0 :: edge_stats where "st0 = \<lparr>created = 0, skipped = 0\<rparr>"


definition six_neighbours :: qdrant where
  \<comment> \<open>the query for A returns six other pages, all scoring 0.9, and not A itself\<close>
  "six_neighbours =
     \<lparr>collections = [(''notion_pages'', \<lparr>vec_size = 1024, indexes = [], points = [ptA]\<rparr>)],
      faults = [], admin_faults = [],
      search = (\<lambda>name v. Inr (map (\<lambda>k. \<lparr>h_id = page_id k, h_score = 9 / 10,
                                          h_payload = [(''notion_id'', JStr (page_id k))]\<rparr>)
                                  [2, 3, 4, 5, 6, 7])),
      upserted = [], queried = []\<rparr>"

definition seven_nodes :: neo4j where
  \<comment> \<open>the pages 1 to 7 as nodes 0 to 6\<close>
  "seven_nodes =
     \<lparr>nodes = map (\<lambda>k. \<lparr>n_ident = k, n_label = Page, n_props = [(''id'', JStr (page_id (k + 1)))]\<rparr>)
                 [0, 1, 2, 3, 4, 5, 6],
      rels = [], unique = [Page], next_ident = 7, n_faults = [], issued = []\<rparr>"

definition failing_query :: qdrant where
  \<comment> \<open>B and A stored; the query for B fails, the query for A returns A and B\<close>
  "failing_query =
     \<lparr>collections = [(''notion_pages'', \<lparr>vec_size = 1024, indexes = [], points = [ptB, ptA]\<rparr>),
                     (''kidsnote_ios'', \<lparr>vec_size = 1024, indexes = [], points = [fileB, fileA]\<rparr>)],
      faults = [], admin_faults = [],
      search = (\<lambda>name v.
                  if v = axis 0
                  then (if name = ''notion_pages'' then Inr [hit_of ptA 1, hit_of ptB (9 / 10)]
                        else Inr [hit_of fileA 1, hit_of fileB (9 / 10)])
                  else Inl QueryError),
      upserted = [], queried = []\<rparr>"

definition empty_graph :: "label list \<Rightarrow> neo4j" where
  "empty_graph uq = \<lparr>nodes = [], rels = [], unique = uq, next_ident = 0, n_faults = [], issued = []\<rparr>"

definition one_page :: neo4j where
  \<comment> \<open>the graph after \<open>pgA\<close> was created, under the uniqueness constraint\<close>
  "one_page = \<lparr>nodes = [\<lparr>n_ident = 0, n_label = Page, n_props = page_props pgA\<rparr>], rels = [],
               unique = [Page], next_ident = 1, n_faults = [], issued = []\<rparr>"

section \<open>Statements\<close>

subsection \<open>Chunking\<close>

lemma chunks_concat: "0 < n \<Longrightarrow> concat (chunks n xs) = xs"
proof (induction n xs rule: chunks.induct)
  case (1 n xs)
  then show ?case by (subst chunks.simps) simp
qed

subsection \<open>The full scan\<close>

text \<open>The scroll loop ends and returns every point of the collection, in stored order.\<close>

lemma fetch_all_from:
  "map_of (collections c) name = Some col \<Longrightarrow>
   fetch_all c name off acc = Inr (acc @ drop (case off of None \<Rightarrow> 0 | Some k \<Rightarrow> k) (points col))"
proof (induction c name off acc rule: fetch_all.induct)
  case (1 c name offset acc)
  let ?start = "case offset of None \<Rightarrow> 0 | Some k \<Rightarrow> k"
  let ?rest = "drop ?start (points col)"
  show ?case
  proof (cases "100 < length ?rest")
    case True
    then have sc: "scroll c name 100 offset = Inr (take 100 ?rest, Some (?start + 100))"
      using "1.prems" by (simp add: scroll_def Let_def)
    have step: "fetch_all c name offset acc = fetch_all c name (Some (?start + 100)) (acc @ take 100 ?rest)"
      by (subst fetch_all.simps) (simp add: sc)
    have ih: "fetch_all c name (Some (?start + 100)) (acc @ take 100 ?rest)
                = Inr ((acc @ take 100 ?rest) @ drop (?start + 100) (points col))"
      using "1.IH" [OF sc refl refl "1.prems"] by simp
    have "take 100 ?rest @ drop (?start + 100) (points col) = ?rest"
      by (metis add.commute append_take_drop_id drop_drop)
    with step ih show ?thesis by simp
  next
    case False
    then have sc: "scroll c name 100 offset = Inr (?rest, None)"
      using "1.prems" by (simp add: scroll_def Let_def)
    show ?thesis by (subst fetch_all.simps) (simp add: sc)
  qed
qed

lemma py_round_9_10: "py_round (9 / 10) 3 = 9 / 10"
  by code_simp

subsection \<open>The concrete vectors\<close>

lemma axis_eq [simp]: "i < 1024 \<Longrightarrow> j < 1024 \<Longrightarrow> axis i = axis j \<longleftrightarrow> i = j"
proof
  assume b: "i < 1024" "j < 1024" and e: "axis i = axis j"
  have "axis i ! i = 1" using b by (simp add: axis_def)
  moreover have "axis j ! i = (if i = j then 1 else 0)" using b by (simp add: axis_def)
  ultimately show "i = j" using e by (simp split: if_splits)
qed simp

lemma length_axis [simp]: "length (axis k) = 1024"
  by (simp add: axis_def)

lemma page_id_eq [simp]: "page_id i = page_id j \<longleftrightarrow> i = j"
  by (simp add: page_id_def)

subsection \<open>Symmetric pairs\<close>

text \<open>
  Claim C1. The resolver should emit one direction per unordered pair, the smaller id as
  the source. code_graph_builder.py does so (\<^verbatim>\<open>if source_path < target_path\<close>);
  similarity_edges.py compares nothing: for two pages A and B that are each other's
  neighbour with score 0.9 it runs the merge for (A, B) and for (B, A), and the graph ends
  with both relationships.
\<close>

theorem notion_resolver_emits_both_directions:
  "(case create_similarity_edges (3 / 4) ''notion_pages'' (two_points (9 / 10)) (two_nodes Page []) of
      Inl e \<Rightarrow> False
    | Inr (st, g, c) \<Rightarrow>
        issued g = [ClearSimilar,
                    MergeSimilar Page (JStr (page_id 1)) (JStr (page_id 2)) (9 / 10),
                    MergeSimilar Page (JStr (page_id 2)) (JStr (page_id 1)) (9 / 10)] \<and>
        rels g = [\<lparr>r_src = 0, r_kind = SIMILAR_TO, r_tgt = 1, r_score = Some (9 / 10)\<rparr>,
                  \<lparr>r_src = 1, r_kind = SIMILAR_TO, r_tgt = 0, r_score = Some (9 / 10)\<rparr>] \<and>
        st = \<lparr>created = 2, skipped = 0\<rparr>)"
proof -
  have f: "fetch_all (two_points (9 / 10)) ''notion_pages'' None [] = Inr [ptA, ptB]"
    by (subst fetch_all_from [where col = "\<lparr>vec_size = 1024, indexes = [], points = [ptA, ptB]\<rparr>"])
       (simp_all add: two_points_def)
  show ?thesis
    unfolding create_similarity_edges_def f
    by (simp add: py_round_9_10 run_def two_nodes_def two_points_def notion_point_def query_points_def ptA_def ptB_def
        hit_of_def dict_get_def TOP_K_def merge_similar_def matching_def merge_rel_def links_def Let_def
        page_payload_def pgA_def pgB_def page_of_def page_id_def)
qed

subsection \<open>Upsert failures\<close>

text \<open>
  Claim C3. A failed upsert should be retried once and, failing again, dropped and counted,
  the final flush included. In vector_store.py the final flush is outside any
  \<^verbatim>\<open>try\<close>: with one page embedded and the upsert failing, \<^verbatim>\<open>process_pages\<close> raises;
  the second outcome of the script is never consumed (no retry) and nothing is stored.
  In code_embedder.py the periodic upsert is not retried either: the twenty buffered
  points are dropped after one attempt.
\<close>

theorem final_flush_failure_aborts:
  "(case process_pages uuid_text ''notion_pages'' [pgA] m_ok (c_faulty [True, False]) of
      (res, s) \<Rightarrow>
        res = Inl UpsertError \<and> faults (client s) = [False] \<and> slept s = 0 \<and>
        map_of (collections (client s)) ''notion_pages'' = Some empty_col) \<and>
   (let s = flush_once (full_buffer [True, False])
    in errors (stats s) = 20 \<and> buffer s = [] \<and> faults (client s) = [False] \<and>
       upserted (client s) = [] \<and> slept s = 0)"
  by code_simp

subsection \<open>Embedding failures\<close>

text \<open>
  Claim C4. A failed chunk should add the number of its items to the error tally. The
  handler adds \<^verbatim>\<open>BATCH_SIZE\<close>: one page whose chunk fails is counted as four errors,
  out of a total of one.
\<close>

theorem short_chunk_failure_counts_batch_size:
  "fst (process_pages uuid_text ''notion_pages'' [pgA] m_fail (c_faulty [])) =
     Inr \<lparr>total = 1, processed = 0, skipped_empty = 0, errors = 4\<rparr>"
  by code_simp

subsection \<open>Stale similarity edges\<close>

text \<open>
  Claim C6. Prior SIMILAR_TO relationships should be cleared before a pass.
  similarity_edges.py deletes them; code_graph_builder.py does not: a relationship
  b.swift -> a.swift with score 0.99 left by an earlier run is still there after a pass in
  which the two files score 0.1 and no relationship is merged.
\<close>

theorem code_resolver_keeps_stale_edge:
  "(case create_similarity_edges_code
           (two_nodes CodeFile [\<lparr>r_src = 1, r_kind = SIMILAR_TO, r_tgt = 0, r_score = Some (99 / 100)\<rparr>])
           (two_points (1 / 10)) [fileA, fileB] of
      (st, g, c) \<Rightarrow>
        rels g = [\<lparr>r_src = 1, r_kind = SIMILAR_TO, r_tgt = 0, r_score = Some (99 / 100)\<rparr>] \<and>
        issued g = [] \<and> st = \<lparr>created = 0, skipped = 2\<rparr>)"
  by code_simp

subsection \<open>The threshold\<close>

lemma exec_issued: "issued (snd (exec g q)) = issued g"
  by (cases q) (simp_all add: Let_def)

lemma run_issued: "issued (snd (run g q)) = issued g @ [q]"
proof (cases "n_faults g")
  case Nil
  then show ?thesis by (simp add: run_def Let_def exec_issued)
next
  case (Cons b fs)
  then show ?thesis by (cases b) (simp_all add: run_def Let_def exec_issued)
qed

lemma merge_similar_issued:
  "issued (snd (snd (merge_similar l a b sc sg))) = issued (snd sg) @ [MergeSimilar l a b sc]"
  using run_issued [of "snd sg" "MergeSimilar l a b sc"]
  by (auto simp: merge_similar_def split: prod.splits sum.splits)

lemma merge_similar_skipped:
  "skipped (fst (snd (merge_similar l a b sc sg))) = skipped (fst sg)"
  by (simp add: merge_similar_def split: prod.splits sum.splits)

lemma notion_hits_issued:
  "issued (snd (notion_hits thr nid hs sg)) =
     issued (snd sg) @
       map (\<lambda>h. MergeSimilar Page nid (similar_id h) (py_round (h_score h) 3))
         (filter (\<lambda>h. similar_id h \<noteq> nid \<and> thr \<le> h_score h) hs)"
proof (induction hs arbitrary: sg)
  case Nil
  then show ?case by simp
next
  case (Cons h hs)
  show ?case
    by (simp add: Cons.IH Let_def similar_id_def merge_similar_issued not_less)
qed



lemma code_hits_prefix:
  "\<exists>k\<le>length hs.
     issued (snd (snd (code_hits pt sp hs sg))) =
       issued (snd sg) @
         map (\<lambda>h. MergeSimilar CodeFile sp (target_path h) (h_score h))
           (filter (\<lambda>h. h_id h \<noteq> p_id pt \<and> SIMILARITY_THRESHOLD \<le> h_score h \<and>
                        py_lt sp (target_path h) = Inr True) (take k hs)) \<and>
     skipped (fst (snd (code_hits pt sp hs sg))) =
       skipped (fst sg) +
         length (filter (\<lambda>h. h_id h \<noteq> p_id pt \<and> h_score h < SIMILARITY_THRESHOLD) (take k hs)) \<and>
     (fst (code_hits pt sp hs sg) = Inr () \<longrightarrow> k = length hs) \<and>
     (fst (code_hits pt sp hs sg) \<noteq> Inr () \<longrightarrow>
        0 < k \<and> h_id (hs ! (k - 1)) \<noteq> p_id pt \<and> SIMILARITY_THRESHOLD \<le> h_score (hs ! (k - 1)))"
proof (induction hs arbitrary: sg)
  case Nil
  then show ?case by simp
next
  case (Cons h hs)
  let ?R = "\<lambda>l k x sg0.
     issued (snd (snd x)) =
       issued (snd sg0) @
         map (\<lambda>h. MergeSimilar CodeFile sp (target_path h) (h_score h))
           (filter (\<lambda>h. h_id h \<noteq> p_id pt \<and> SIMILARITY_THRESHOLD \<le> h_score h \<and>
                        py_lt sp (target_path h) = Inr True) (take k l)) \<and>
     skipped (fst (snd x)) =
       skipped (fst sg0) +
         length (filter (\<lambda>h. h_id h \<noteq> p_id pt \<and> h_score h < SIMILARITY_THRESHOLD) (take k l)) \<and>
     (fst x = Inr () \<longrightarrow> k = length l) \<and>
     (fst x \<noteq> Inr () \<longrightarrow>
        0 < k \<and> h_id (l ! (k - 1)) \<noteq> p_id pt \<and> SIMILARITY_THRESHOLD \<le> h_score (l ! (k - 1)))"
  have ih: "\<exists>k\<le>length hs. ?R hs k (code_hits pt sp hs sg') sg'" for sg'
    by (rule Cons.IH)
  define res where "res = code_hits pt sp (h # hs) sg"
  have step: "?R (h # hs) (Suc k) x sg" if "?R hs k x sg'" "issued (snd sg') = issued (snd sg)"
    "skipped (fst sg') = skipped (fst sg)" "h_id h = p_id pt \<or> (SIMILARITY_THRESHOLD \<le> h_score h \<and>
      py_lt sp (target_path h) \<noteq> Inr True)" for k x sg'
    using that by (auto simp: nth_Cons' not_less)
  consider (self) "h_id h = p_id pt"
    | (below) "h_id h \<noteq> p_id pt" "h_score h < SIMILARITY_THRESHOLD"
    | (terr) e where "h_id h \<noteq> p_id pt" "\<not> h_score h < SIMILARITY_THRESHOLD"
        "py_lt sp (target_path h) = Inl e"
    | (nlt) "h_id h \<noteq> p_id pt" "\<not> h_score h < SIMILARITY_THRESHOLD"
        "py_lt sp (target_path h) = Inr False"
    | (lt) "h_id h \<noteq> p_id pt" "\<not> h_score h < SIMILARITY_THRESHOLD"
        "py_lt sp (target_path h) = Inr True"
    by (cases "py_lt sp (target_path h)") auto
  then have "\<exists>k\<le>length (h # hs). ?R (h # hs) k res sg"
  proof cases
    case self
    from ih [of sg] obtain k where k: "k \<le> length hs" and r: "?R hs k (code_hits pt sp hs sg) sg"
      by blast
    have unf: "res = code_hits pt sp hs sg"
      using self by (simp add: res_def)
    have "?R (h # hs) (Suc k) res sg"
      unfolding unf by (rule step [OF r]) (simp_all add: self)
    with k show ?thesis by (intro exI [of _ "Suc k"]) simp
  next
    case below
    let ?sg1 = "((fst sg)\<lparr>skipped := skipped (fst sg) + 1\<rparr>, snd sg)"
    from ih [of ?sg1] obtain k where k: "k \<le> length hs" and r: "?R hs k (code_hits pt sp hs ?sg1) ?sg1"
      by blast
    have unf: "res = code_hits pt sp hs ?sg1"
      using below by (simp add: res_def)
    have "?R (h # hs) (Suc k) res sg"
      unfolding unf using r below by (auto simp: nth_Cons')
    with k show ?thesis by (intro exI [of _ "Suc k"]) simp
  next
    case terr
    have unf: "res = (Inl e, sg)"
      using terr by (simp add: res_def Let_def target_path_def)
    have "?R (h # hs) 1 res sg"
      unfolding unf using terr by (simp add: not_less)
    then show ?thesis by (intro exI [of _ 1]) simp
  next
    case nlt
    from ih [of sg] obtain k where k: "k \<le> length hs" and r: "?R hs k (code_hits pt sp hs sg) sg"
      by blast
    have unf: "res = code_hits pt sp hs sg"
      using nlt by (simp add: res_def Let_def target_path_def)
    have "?R (h # hs) (Suc k) res sg"
      unfolding unf by (rule step [OF r]) (use nlt in \<open>simp_all add: not_less\<close>)
    with k show ?thesis by (intro exI [of _ "Suc k"]) simp
  next
    case lt
    obtain r sg1 where m: "merge_similar CodeFile sp (target_path h) (h_score h) sg = (r, sg1)"
      by (cases "merge_similar CodeFile sp (target_path h) (h_score h) sg") auto
    have iss: "issued (snd sg1) = issued (snd sg) @ [MergeSimilar CodeFile sp (target_path h) (h_score h)]"
      using merge_similar_issued [of CodeFile sp "target_path h" "h_score h" sg] by (simp add: m)
    have skp: "skipped (fst sg1) = skipped (fst sg)"
      using merge_similar_skipped [of CodeFile sp "target_path h" "h_score h" sg] by (simp add: m)
    show ?thesis
    proof (cases r)
      case (Inl e)
      have unf: "res = (Inl e, sg1)"
        using lt m Inl by (simp add: res_def Let_def target_path_def)
      have "?R (h # hs) 1 res sg"
        unfolding unf using lt iss skp by (simp add: not_less)
      then show ?thesis by (intro exI [of _ 1]) simp
    next
      case (Inr u)
      have unf: "res = code_hits pt sp hs sg1"
        using lt m Inr by (simp add: res_def Let_def target_path_def)
      from ih [of sg1] obtain k where k: "k \<le> length hs" and r: "?R hs k (code_hits pt sp hs sg1) sg1"
        by blast
      have "?R (h # hs) (Suc k) res sg"
        unfolding unf using r lt iss skp by (auto simp: not_less nth_Cons')
      with k show ?thesis by (intro exI [of _ "Suc k"]) simp
    qed
  qed
  then show ?case unfolding res_def .
qed






subsection \<open>One pivot\<close>

text \<open>
  What the query of one pivot bounds: the resolver asks for one result more than
  \<^verbatim>\<open>TOP_K\<close>, so at most that many statements are run for the pivot, and one fewer when
  the pivot is among the results.
\<close>

lemma notion_point_bound:
  assumes "\<not> falsy (dict_get (p_payload pt) ''notion_id'' (JStr []))"
    and "notion_point thr cname pt (st, g, c) = Inr (st', g', c')"
  shows "queried c' = queried c @ [(cname, p_vector pt, TOP_K + 1)]"
    and "length (issued g') \<le> length (issued g) + (TOP_K + 1)"
    and "search c cname (p_vector pt) = Inr hs \<Longrightarrow> h \<in> set (take (TOP_K + 1) hs) \<Longrightarrow>
         similar_id h = dict_get (p_payload pt) ''notion_id'' (JStr []) \<Longrightarrow>
         length (issued g') \<le> length (issued g) + TOP_K"
proof -
  let ?nid = "dict_get (p_payload pt) ''notion_id'' (JStr [])"
  let ?keep = "\<lambda>h. similar_id h \<noteq> ?nid \<and> thr \<le> h_score h"
  from assms obtain hs0 where s: "search c cname (p_vector pt) = Inr hs0"
    by (cases "search c cname (p_vector pt)") (auto simp: notion_point_def query_points_def Let_def)
  let ?hs = "take (TOP_K + 1) hs0"
  from assms s have g': "g' = snd (notion_hits thr ?nid ?hs (st, g))"
    and c': "c' = c\<lparr>queried := queried c @ [(cname, p_vector pt, TOP_K + 1)]\<rparr>"
    by (auto simp: notion_point_def query_points_def Let_def)
  show "queried c' = queried c @ [(cname, p_vector pt, TOP_K + 1)]" by (simp add: c')
  have len: "length (issued g') = length (issued g) + length (filter ?keep ?hs)"
    unfolding g' by (simp add: notion_hits_issued)
  have "length (filter ?keep ?hs) \<le> length ?hs" by (rule length_filter_le)
  then show "length (issued g') \<le> length (issued g) + (TOP_K + 1)" using len by simp
  show "length (issued g') \<le> length (issued g) + TOP_K"
    if "search c cname (p_vector pt) = Inr hs" "h \<in> set (take (TOP_K + 1) hs)" "similar_id h = ?nid"
  proof -
    from that s have "h \<in> set ?hs" by simp
    with that(3) have "length (filter ?keep ?hs) < length ?hs"
      by (intro length_filter_less [of h]) auto
    then show ?thesis using len by simp
  qed
qed

lemma code_point_bound:
  assumes "code_point pt (st, g, c) = (st', g', c')"
  shows "queried c' = queried c @ [(CODE_COLLECTION, p_vector pt, TOP_K_SIMILAR + 1)]"
    and "length (issued g') \<le> length (issued g) + (TOP_K_SIMILAR + 1)"
    and "search c CODE_COLLECTION (p_vector pt) = Inr hs \<Longrightarrow> h \<in> set (take (TOP_K_SIMILAR + 1) hs) \<Longrightarrow>
         h_id h = p_id pt \<Longrightarrow> length (issued g') \<le> length (issued g) + TOP_K_SIMILAR"
proof -
  let ?sp = "dict_get (p_payload pt) ''relative_path'' (JStr [])"
  let ?keep = "\<lambda>h. h_id h \<noteq> p_id pt \<and> SIMILARITY_THRESHOLD \<le> h_score h \<and>
                     py_lt ?sp (target_path h) = Inr True"
  show q: "queried c' = queried c @ [(CODE_COLLECTION, p_vector pt, TOP_K_SIMILAR + 1)]"
    using assms by (auto simp: code_point_def query_points_def Let_def split: sum.splits)
  show "length (issued g') \<le> length (issued g) + (TOP_K_SIMILAR + 1)"
    and "search c CODE_COLLECTION (p_vector pt) = Inr hs \<Longrightarrow> h \<in> set (take (TOP_K_SIMILAR + 1) hs) \<Longrightarrow>
         h_id h = p_id pt \<Longrightarrow> length (issued g') \<le> length (issued g) + TOP_K_SIMILAR"
  proof (atomize (full), cases "search c CODE_COLLECTION (p_vector pt)")
    case (Inl e)
    with assms have "g' = g" by (simp add: code_point_def query_points_def)
    with Inl show "length (issued g') \<le> length (issued g) + (TOP_K_SIMILAR + 1) \<and>
       (search c CODE_COLLECTION (p_vector pt) = Inr hs \<longrightarrow> h \<in> set (take (TOP_K_SIMILAR + 1) hs) \<longrightarrow>
         h_id h = p_id pt \<longrightarrow> length (issued g') \<le> length (issued g) + TOP_K_SIMILAR)"
      by simp
  next
    case (Inr hs0)
    define hs1 where "hs1 = take (TOP_K_SIMILAR + 1) hs0"
    have l1: "length hs1 \<le> TOP_K_SIMILAR + 1" by (simp add: hs1_def)
    from assms Inr have g': "g' = snd (snd (code_hits pt ?sp hs1 (st, g)))"
      by (simp add: code_point_def query_points_def Let_def hs1_def)
    from code_hits_prefix [of hs1 pt ?sp "(st, g)"] obtain k where k: "k \<le> length hs1"
      and iss0: "issued (snd (snd (code_hits pt ?sp hs1 (st, g)))) =
                  issued (snd (st, g)) @ map (\<lambda>h. MergeSimilar CodeFile ?sp (target_path h) (h_score h))
                  (filter ?keep (take k hs1))"
      by blast
    have len: "length (issued g') = length (issued g) + length (filter ?keep (take k hs1))"
      using iss0 by (simp add: g')
    have le1: "length (filter ?keep (take k hs1)) \<le> length (take k hs1)" by (rule length_filter_le)
    have a: "length (issued g') \<le> length (issued g) + (TOP_K_SIMILAR + 1)"
      using len le1 k l1 by simp
    have b: "length (issued g') \<le> length (issued g) + TOP_K_SIMILAR"
      if "h \<in> set hs1" "h_id h = p_id pt"
    proof (cases "k = length hs1")
      case True
      then have "take k hs1 = hs1" by simp
      moreover from that have "length (filter ?keep hs1) < length hs1"
        by (intro length_filter_less [of h]) simp_all
      ultimately show ?thesis using len l1 by simp
    next
      case False
      with k l1 have "k \<le> TOP_K_SIMILAR" by simp
      then show ?thesis using len le1 by simp
    qed
    from a b Inr show "length (issued g') \<le> length (issued g) + (TOP_K_SIMILAR + 1) \<and>
       (search c CODE_COLLECTION (p_vector pt) = Inr hs \<longrightarrow> h \<in> set (take (TOP_K_SIMILAR + 1) hs) \<longrightarrow>
         h_id h = p_id pt \<longrightarrow> length (issued g') \<le> length (issued g) + TOP_K_SIMILAR)"
      by (auto simp: hs1_def)
  qed
qed

text \<open>
  Claim C8. At most \<^verbatim>\<open>top_k\<close> edges should originate from one pivot (the script says
  of \<^verbatim>\<open>TOP_K = 5\<close>: the top five only, for each page). The resolver asks for
  \<^verbatim>\<open>TOP_K + 1\<close> results, the one more being the pivot itself, which it passes over.
  When the results do not contain the pivot, nothing is passed over: six neighbours
  returned for page 1, none of them page 1 and all scoring 0.9, give six relationships
  from page 1.
\<close>

theorem six_edges_from_one_pivot:
  "(case notion_point (3 / 4) ''notion_pages'' ptA (st0, seven_nodes, six_neighbours) of
      Inl e \<Rightarrow> False
    | Inr (st, g, c) \<Rightarrow>
        length (issued g) = 6 \<and> map r_src (rels g) = [0, 0, 0, 0, 0, 0] \<and>
        map r_tgt (rels g) = [1, 2, 3, 4, 5, 6] \<and> created st = 6 \<and>
        queried c = [(''notion_pages'', p_vector ptA, 6)]) \<and>
   TOP_K = 5"
  by code_simp

subsection \<open>A failed neighbour query\<close>

lemma code_point_search: "search (snd (snd (code_point pt w))) = search (snd (snd w))"
  by (simp add: code_point_def query_points_def Let_def split: sum.splits)

lemma code_pass_search:
  "search (snd (snd (foldl (\<lambda>w pt. code_point pt w) w pts))) = search (snd (snd w))"
  by (induction pts arbitrary: w) (simp_all add: code_point_search)

text \<open>
  Claim C5, as amended. In code_graph_builder.py a failed nearest-neighbour query for one
  point is caught: the point is passed over, the statistics and the graph are as they were
  before it, and the pass goes on with the points after it. The failure is not counted:
  the statistics hold only \<^verbatim>\<open>created\<close> and \<^verbatim>\<open>skipped\<close>.
\<close>

theorem failed_query_skips_point:
  assumes "search c CODE_COLLECTION (p_vector pt) = Inl e"
    and "create_similarity_edges_code g c ps = (st1, g1, c1)"
  shows "code_point pt (st1, g1, c1) =
           (st1, g1, c1\<lparr>queried := queried c1 @ [(CODE_COLLECTION, p_vector pt, TOP_K_SIMILAR + 1)]\<rparr>) \<and>
         create_similarity_edges_code g c (ps @ pt # qs) =
           foldl (\<lambda>w p. code_point p w)
             (st1, g1, c1\<lparr>queried := queried c1 @ [(CODE_COLLECTION, p_vector pt, TOP_K_SIMILAR + 1)]\<rparr>) qs"
proof -
  have "search c1 = search c"
    using code_pass_search [of "(\<lparr>created = 0, skipped = 0\<rparr>, g, c)" ps] assms(2)
    by (simp add: create_similarity_edges_code_def)
  with assms(1) have step: "code_point pt (st1, g1, c1) =
      (st1, g1, c1\<lparr>queried := queried c1 @ [(CODE_COLLECTION, p_vector pt, TOP_K_SIMILAR + 1)]\<rparr>)"
    by (simp add: code_point_def query_points_def)
  moreover have "create_similarity_edges_code g c (ps @ pt # qs) =
      foldl (\<lambda>w p. code_point p w) (code_point pt (st1, g1, c1)) qs"
    using assms(2) by (simp add: create_similarity_edges_code_def)
  ultimately show ?thesis by simp
qed

theorem failed_query_skips_point_witness:
  "search failing_query CODE_COLLECTION (p_vector fileB) = Inl QueryError \<and>
   create_similarity_edges_code (two_nodes CodeFile []) failing_query [] =
     (st0, two_nodes CodeFile [], failing_query) \<and>
   code_point fileB (st0, two_nodes CodeFile [], failing_query) =
     (st0, two_nodes CodeFile [],
      failing_query\<lparr>queried := [(CODE_COLLECTION, p_vector fileB, TOP_K_SIMILAR + 1)]\<rparr>) \<and>
   (case create_similarity_edges_code (two_nodes CodeFile []) failing_query [fileB, fileA] of
      (st, g, c) \<Rightarrow>
        st = \<lparr>created = 1, skipped = 0\<rparr> \<and>
        issued g = [MergeSimilar CodeFile (JStr (py ''a.swift'')) (JStr (py ''b.swift'')) (9 / 10)] \<and>
        map fst (queried c) = [CODE_COLLECTION, CODE_COLLECTION])"
proof -
  have h1: "search failing_query CODE_COLLECTION (p_vector fileB) = Inl QueryError"
    by (simp add: failing_query_def fileB_def)
  have h2: "create_similarity_edges_code (two_nodes CodeFile []) failing_query [] =
     (st0, two_nodes CodeFile [], failing_query)"
    by (simp add: create_similarity_edges_code_def st0_def)
  have q0: "queried failing_query = []" by (simp add: failing_query_def)
  from failed_query_skips_point [OF h1 h2, of "[fileA]"]
  have a: "code_point fileB (st0, two_nodes CodeFile [], failing_query) =
     (st0, two_nodes CodeFile [],
      failing_query\<lparr>queried := [(CODE_COLLECTION, p_vector fileB, TOP_K_SIMILAR + 1)]\<rparr>)"
    and b: "create_similarity_edges_code (two_nodes CodeFile []) failing_query [fileB, fileA] =
      foldl (\<lambda>w p. code_point p w)
        (st0, two_nodes CodeFile [],
         failing_query\<lparr>queried := [(CODE_COLLECTION, p_vector fileB, TOP_K_SIMILAR + 1)]\<rparr>) [fileA]"
    by (simp_all add: q0)
  have c: "(case create_similarity_edges_code (two_nodes CodeFile []) failing_query [fileB, fileA] of
      (st, g, c) \<Rightarrow>
        st = \<lparr>created = 1, skipped = 0\<rparr> \<and>
        issued g = [MergeSimilar CodeFile (JStr (py ''a.swift'')) (JStr (py ''b.swift'')) (9 / 10)] \<and>
        map fst (queried c) = [CODE_COLLECTION, CODE_COLLECTION])"
    unfolding b
    by (simp add: code_point_def query_points_def failing_query_def fileA_def fileB_def file_payload_def hit_of_def st0_def CODE_COLLECTION_def
        two_nodes_def dict_get_def SIMILARITY_THRESHOLD_def TOP_K_SIMILAR_def merge_similar_def run_def matching_def
        merge_rel_def links_def Let_def)
  from h1 h2 a c show ?thesis by blast
qed

text \<open>
  Claim C5 as stated fails: in similarity_edges.py the query is outside any \<^verbatim>\<open>try\<close>
  and its failure ends the pass (A, stored after B, is never queried); in
  code_graph_builder.py the statistics after the failed query are those of an empty pass.
\<close>

theorem failed_query_aborts_or_goes_uncounted:
  "create_similarity_edges (3 / 4) ''notion_pages'' failing_query (two_nodes Page []) = Inl QueryError \<and>
   fst (create_similarity_edges_code (two_nodes CodeFile []) failing_query [fileB]) =
     \<lparr>created = 0, skipped = 0\<rparr> \<and>
   fst (create_similarity_edges_code (two_nodes CodeFile []) failing_query []) =
     \<lparr>created = 0, skipped = 0\<rparr>"
proof -
  have f: "fetch_all failing_query ''notion_pages'' None [] = Inr [ptB, ptA]"
    by (subst fetch_all_from [where col = "\<lparr>vec_size = 1024, indexes = [], points = [ptB, ptA]\<rparr>"])
       (simp_all add: failing_query_def)
  have n: "create_similarity_edges (3 / 4) ''notion_pages'' failing_query (two_nodes Page []) = Inl QueryError"
    unfolding create_similarity_edges_def f
    by (simp add: run_def two_nodes_def failing_query_def notion_point_def query_points_def
        ptA_def ptB_def dict_get_def Let_def page_payload_def pgA_def pgB_def page_of_def page_id_def)
  have c: "fst (create_similarity_edges_code (two_nodes CodeFile []) failing_query [fileB]) =
     \<lparr>created = 0, skipped = 0\<rparr>"
    by (simp add: create_similarity_edges_code_def code_point_def query_points_def failing_query_def fileB_def)
  from n c show ?thesis by (simp add: create_similarity_edges_code_def)
qed

end
